theory Spec2Isabelle
  imports Main "HOL-Library.AList"
begin

section \<open>The multi-aspect sampler of helpers/multiaspect/sampler.py\<close>

text \<open>
  The sampler draws image paths bucket by bucket. The bucket manager, the data backend,
  the state tracker and Python's \<open>random\<close> module are collaborators: they are gathered
  in a record \<open>world\<close> that every operation reads, and that validation and random draws
  update. The sampler's own attributes are the record \<open>sampler\<close>.
\<close>

subsection \<open>Data\<close>

type_synonym image_path = string
type_synonym bucket_key = string

text \<open>
  The exceptions that leave the sampler: \<open>NoImagesFound\<close> is
  \<open>Exception("No images found in the dataset.")\<close> of \<open>_reset_buckets\<close>; the others are
  Python's own: \<open>random.choice\<close> on an empty list or an index out of range, a missing
  dictionary key, \<open>list.index\<close> and \<open>random.sample\<close>, indexing with \<open>None\<close>, and
  whatever the f-strings of \<open>log_state\<close> raise.
\<close>

datatype exc = NoImagesFound | IndexErr | KeyErr | ValueErr | TypeErr | LogStateErr

text \<open>
  What \<open>data_backend.read\<close> and PIL report for an existing file: \<open>opened\<close> is the
  (width, height) of \<open>Image.open\<close>, \<open>None\<close> when reading or opening raises;
  \<open>transposed\<close> is the (width, height) after \<open>exif_transpose\<close>, \<open>None\<close> when that raises.
\<close>

record image_file =
  opened :: "(nat \<times> nat) option"
  transposed :: "(nat \<times> nat) option"

text \<open>
  \<open>aspect_ratio_bucket_indices\<close> is the bucket manager's ordered dictionary;
  \<open>is_seen\<close> is its method of that name, whose code is not part of the sampler and is
  taken as given; \<open>backend\<close> maps a path to its file, \<open>None\<close> when
  \<open>data_backend.exists\<close> is false; \<open>aspect_key w h\<close> stands for the floating-point
  expression \<open>str(round(w / h, 2))\<close>; \<open>key_float_ok b\<close> says that \<open>float(b)\<close> and
  \<open>convert_to_human_readable\<close> succeed on the key \<open>b\<close>; \<open>status_training\<close> is
  \<open>StateTracker.status_training()\<close>; \<open>rng\<close> is the stream of numbers the \<open>random\<close>
  module will deliver.
\<close>

record world =
  aspect_ratio_bucket_indices :: "(bucket_key \<times> image_path list) list"
  is_seen :: "image_path \<Rightarrow> bool"
  backend :: "image_path \<Rightarrow> image_file option"
  aspect_key :: "nat \<Rightarrow> nat \<Rightarrow> bucket_key"
  key_float_ok :: "bucket_key \<Rightarrow> bool"
  status_training :: bool
  rng :: "nat \<Rightarrow> nat"

record sampler =
  buckets :: "bucket_key list"
  exhausted_buckets :: "bucket_key list"
  seen_images :: "(image_path \<times> bucket_key) list"
  current_bucket :: "nat option"
  current_epoch :: int
  batch_size :: int
  delete_unwanted_images :: bool
  minimum_image_size :: "int option"

text \<open>The outcome of an operation: its value, or the exception, with the state at that point.\<close>

datatype 'a result = Ok 'a world sampler | Raise exc world sampler

subsection \<open>The random module\<close>

definition next_random :: "world \<Rightarrow> nat \<times> world" where
  "next_random w = (rng w 0, w\<lparr>rng := (\<lambda>n. rng w (Suc n))\<rparr>)"

text \<open>\<open>random.choice(seq)\<close>: an element at a random position, IndexError on an empty list.\<close>

definition random_choice :: "'a list \<Rightarrow> world \<Rightarrow> ('a \<times> world) option" where
  "random_choice xs w =
     (if xs = [] then None
      else let (r, w') = next_random w in Some (xs ! (r mod length xs), w'))"

definition remove_nth :: "nat \<Rightarrow> 'a list \<Rightarrow> 'a list" where
  "remove_nth j xs = take j xs @ drop (Suc j) xs"

fun draw_distinct :: "nat \<Rightarrow> 'a list \<Rightarrow> world \<Rightarrow> 'a list \<times> world" where
  "draw_distinct 0 pool w = ([], w)"
| "draw_distinct (Suc k) pool w =
     (let (r, w1) = next_random w;
          j = r mod length pool;
          (rest, w2) = draw_distinct k (remove_nth j pool) w1
      in (pool ! j # rest, w2))"

text \<open>
  \<open>random.sample(population, k)\<close>: \<open>k\<close> positions drawn without replacement, in the
  order drawn; ValueError when \<open>k\<close> is negative or larger than the population. Every
  sequence of \<open>k\<close> distinct positions is the draw for some numbers, as in Python.
\<close>

definition random_sample :: "'a list \<Rightarrow> int \<Rightarrow> world \<Rightarrow> ('a list \<times> world) option" where
  "random_sample xs k w =
     (if k < 0 \<or> int (length xs) < k then None
      else Some (draw_distinct (nat k) xs w))"

subsection \<open>The bucket manager's mutations\<close>

definition drop_from_bucket ::
  "image_path \<Rightarrow> bucket_key \<Rightarrow> (bucket_key \<times> image_path list) list
     \<Rightarrow> (bucket_key \<times> image_path list) list" where
  "drop_from_bucket p b idx = map (\<lambda>(k, imgs). (k, if k = b then removeAll p imgs else imgs)) idx"

definition add_to_bucket ::
  "image_path \<Rightarrow> bucket_key \<Rightarrow> (bucket_key \<times> image_path list) list
     \<Rightarrow> (bucket_key \<times> image_path list) list" where
  "add_to_bucket p b idx =
     (case map_of idx b of
        None \<Rightarrow> idx @ [(b, [p])]
      | Some imgs \<Rightarrow> AList.update b (imgs @ [p]) idx)"

text \<open>
  Modelled from the spec: \<open>BucketManager.remove_image\<close> is not in the sampler's file; the
  spec has it remove the identifier from the Bucket Store under that bucket.
\<close>

definition remove_image :: "image_path \<Rightarrow> bucket_key \<Rightarrow> world \<Rightarrow> world" where
  "remove_image p b w =
     w\<lparr>aspect_ratio_bucket_indices := drop_from_bucket p b (aspect_ratio_bucket_indices w)\<rparr>"

text \<open>
  Modelled from the spec: \<open>BucketManager.handle_small_image\<close> is not in the sampler's file;
  the spec has it delete the backing resource or merely evict the item from the index,
  depending on the configuration flag.
\<close>

definition handle_small_image :: "image_path \<Rightarrow> bucket_key \<Rightarrow> bool \<Rightarrow> world \<Rightarrow> world" where
  "handle_small_image p b del w =
     (let w' = w\<lparr>aspect_ratio_bucket_indices := drop_from_bucket p b (aspect_ratio_bucket_indices w)\<rparr>
      in if del then w'\<lparr>backend := (backend w)(p := None)\<rparr> else w')"

text \<open>
  Modelled from the spec: \<open>BucketManager.handle_incorrect_bucket\<close> is not in the sampler's
  file; the spec has it re-file the item under the correct bucket key.
\<close>

definition handle_incorrect_bucket ::
  "image_path \<Rightarrow> bucket_key \<Rightarrow> bucket_key \<Rightarrow> world \<Rightarrow> world" where
  "handle_incorrect_bucket p b actual w =
     w\<lparr>aspect_ratio_bucket_indices :=
         add_to_bucket p actual (drop_from_bucket p b (aspect_ratio_bucket_indices w))\<rparr>"

subsection \<open>Reading the buckets\<close>

definition load_buckets :: "world \<Rightarrow> bucket_key list" where
  "load_buckets w = map fst (aspect_ratio_bucket_indices w)"

definition unseen_of :: "world \<Rightarrow> image_path list \<Rightarrow> image_path list" where
  "unseen_of w imgs = filter (\<lambda>image. \<not> is_seen w image) imgs"

text \<open>
  \<open>_get_unseen_images(bucket)\<close>. The test \<open>if bucket:\<close> is false for \<open>None\<close> and for the
  empty string; a key missing from the dictionary raises KeyError.
\<close>

definition get_unseen_images :: "world \<Rightarrow> bucket_key option \<Rightarrow> exc + image_path list" where
  "get_unseen_images w bucket =
     (case bucket of
        Some b \<Rightarrow>
          if b \<noteq> [] then
            (case map_of (aspect_ratio_bucket_indices w) b of
               None \<Rightarrow> Inl KeyErr
             | Some imgs \<Rightarrow> Inr (unseen_of w imgs))
          else Inr (concat (map (\<lambda>(b, images). unseen_of w images) (aspect_ratio_bucket_indices w)))
      | None \<Rightarrow> Inr (concat (map (\<lambda>(b, images). unseen_of w images) (aspect_ratio_bucket_indices w))))"

text \<open>
  \<open>log_state\<close> changes nothing, but its f-strings are evaluated whatever the log level:
  \<open>float(b)\<close> and \<open>convert_to_human_readable\<close> for every active and exhausted key, and
  the dictionary entry of every active key. Whatever they raise is \<open>LogStateErr\<close>.
\<close>

definition log_state :: "world \<Rightarrow> sampler \<Rightarrow> exc option" where
  "log_state w s =
     (if (\<forall>b \<in> set (buckets s).
            key_float_ok w b \<and> map_of (aspect_ratio_bucket_indices w) b \<noteq> None)
         \<and> (\<forall>b \<in> set (exhausted_buckets s). key_float_ok w b)
      then None else Some LogStateErr)"

fun index_of :: "'a list \<Rightarrow> 'a \<Rightarrow> nat option" where
  "index_of [] x = None"
| "index_of (y # ys) x = (if y = x then Some 0 else map_option Suc (index_of ys x))"

text \<open>\<open>_bucket_name_to_id\<close>: \<open>self.buckets.index(str(bucket_name))\<close>, ValueError when absent.\<close>

definition bucket_name_to_id :: "sampler \<Rightarrow> bucket_key \<Rightarrow> nat option" where
  "bucket_name_to_id s bucket_name = index_of (buckets s) bucket_name"

subsection \<open>Rotation and epoch rollover\<close>

text \<open>
  \<open>_reset_buckets\<close>, \<open>_get_next_bucket\<close> and \<open>change_bucket\<close> call one another:
  a rollover ends by changing the bucket, and changing the bucket rolls over when no
  bucket is available.
\<close>

function reset_buckets :: "world \<Rightarrow> sampler \<Rightarrow> unit result"
  and get_next_bucket :: "world \<Rightarrow> sampler \<Rightarrow> bucket_key result"
  and change_bucket :: "world \<Rightarrow> sampler \<Rightarrow> unit result"
where
  "reset_buckets w s =
     (if seen_images s = [] \<and> get_unseen_images w None = Inr [] then Raise NoImagesFound w s
      else case log_state w s of
        Some e \<Rightarrow> Raise e w s
      | None \<Rightarrow>
          change_bucket w
            (s\<lparr>current_epoch := current_epoch s + 1,
               exhausted_buckets := [],
               buckets := load_buckets w,
               seen_images := []\<rparr>))"
| "get_next_bucket w s =
     (let available_buckets = filter (\<lambda>bucket. bucket \<notin> set (exhausted_buckets s)) (buckets s)
      in if available_buckets = [] then
           (case reset_buckets w s of
              Raise e w' s' \<Rightarrow> Raise e w' s'
            | Ok u w' s' \<Rightarrow>
                (case random_choice (buckets s') w' of
                   None \<Rightarrow> Raise IndexErr w' s'
                 | Some (next_bucket, w'') \<Rightarrow> Ok next_bucket w'' s'))
         else
           (case random_choice available_buckets w of
              None \<Rightarrow> Raise IndexErr w s
            | Some (next_bucket, w') \<Rightarrow> Ok next_bucket w' s))"
| "change_bucket w s =
     (case get_next_bucket w s of
        Raise e w' s' \<Rightarrow> Raise e w' s'
      | Ok next_bucket w' s' \<Rightarrow>
          (case bucket_name_to_id s' next_bucket of
             None \<Rightarrow> Raise ValueErr w' s'
           | Some i \<Rightarrow> Ok () w' (s'\<lparr>current_bucket := Some i\<rparr>)))"
  by pat_completeness auto

termination
  by (relation "measure (\<lambda>x. case x of
      Inl (w, s) \<Rightarrow> (if seen_images s = [] \<and> get_unseen_images w None = Inr [] then 0 else 5)
    | Inr (Inl (w, s)) \<Rightarrow>
        (if filter (\<lambda>bucket. bucket \<notin> set (exhausted_buckets s)) (buckets s) = []
         then (if seen_images s = [] \<and> get_unseen_images w None = Inr [] then 1 else 6) else 0)
    | Inr (Inr (w, s)) \<Rightarrow>
        (if filter (\<lambda>bucket. bucket \<notin> set (exhausted_buckets s)) (buckets s) = []
         then (if seen_images s = [] \<and> get_unseen_images w None = Inr [] then 2 else 7) else 1))")
     (auto simp: load_buckets_def get_unseen_images_def)

declare reset_buckets.simps [simp del] get_next_bucket.simps [simp del] change_bucket.simps [simp del]

text \<open>
  \<open>move_to_exhausted\<close> moves the bucket at index \<open>current_bucket\<close>: it is appended to
  \<open>exhausted_buckets\<close> and its first occurrence is removed from \<open>buckets\<close>.
\<close>

definition move_to_exhausted :: "world \<Rightarrow> sampler \<Rightarrow> unit result" where
  "move_to_exhausted w s =
     (case current_bucket s of
        None \<Rightarrow> Raise TypeErr w s
      | Some i \<Rightarrow>
          if length (buckets s) \<le> i then Raise IndexErr w s
          else
            let bucket = buckets s ! i;
                s' = s\<lparr>exhausted_buckets := exhausted_buckets s @ [bucket],
                       buckets := remove1 bucket (buckets s)\<rparr>
            in (case log_state w s' of
                  Some e \<Rightarrow> Raise e w s'
                | None \<Rightarrow> Ok () w s'))"

subsection \<open>Construction from saved state\<close>

text \<open>
  What \<open>state_manager.load_state()\<close> returned: each key of the dictionary may be absent.
\<close>

record snapshot =
  snap_exhausted_buckets :: "bucket_key list option"
  snap_current_epoch :: "int option"
  snap_seen_images :: "(image_path \<times> bucket_key) list option"

text \<open>
  \<open>load_states\<close>, with the constructor's assignments before it: \<open>file_seen\<close> is what
  \<open>state_manager.load_seen_images()\<close> returned. The active buckets are always the keys
  of the bucket manager's dictionary; the saved \<open>buckets\<close> and \<open>current_bucket\<close> are not read.
\<close>

definition load_states ::
  "world \<Rightarrow> int \<Rightarrow> bool \<Rightarrow> int option \<Rightarrow> (image_path \<times> bucket_key) list \<Rightarrow> snapshot
     \<Rightarrow> unit result" where
  "load_states w bs del minsize file_seen previous_state =
     (let s = \<lparr>buckets = load_buckets w,
                exhausted_buckets =
                  (case snap_exhausted_buckets previous_state of None \<Rightarrow> [] | Some e \<Rightarrow> e),
                seen_images =
                  (case snap_seen_images previous_state of None \<Rightarrow> file_seen | Some m \<Rightarrow> m),
                current_bucket = None,
                current_epoch =
                  (case snap_current_epoch previous_state of None \<Rightarrow> 1 | Some n \<Rightarrow> n),
                batch_size = bs,
                delete_unwanted_images = del,
                minimum_image_size = minsize\<rparr>
      in case log_state w s of
           Some e \<Rightarrow> Raise e w s
         | None \<Rightarrow> Ok () w s)"

text \<open>\<open>__init__\<close>: load the state, then choose the first bucket.\<close>

definition init_sampler ::
  "world \<Rightarrow> int \<Rightarrow> bool \<Rightarrow> int option \<Rightarrow> (image_path \<times> bucket_key) list \<Rightarrow> snapshot
     \<Rightarrow> unit result" where
  "init_sampler w bs del minsize file_seen previous_state =
     (case load_states w bs del minsize file_seen previous_state of
        Raise e w' s' \<Rightarrow> Raise e w' s'
      | Ok u w' s' \<Rightarrow> change_bucket w' s')"

subsection \<open>Lazy validation\<close>

text \<open>
  \<open>_process_single_image\<close>. Everything after the existence test runs inside
  \<open>try: ... except:\<close>, so any exception there (reading, opening, comparing a size with
  \<open>None\<close>, \<open>exif_transpose\<close>, a zero height) ends in \<open>return None\<close> with the world as it is.
\<close>

definition process_single_image ::
  "world \<Rightarrow> sampler \<Rightarrow> image_path \<Rightarrow> bucket_key \<Rightarrow> image_path option \<times> world" where
  "process_single_image w s image_path bucket =
     (case backend w image_path of
        None \<Rightarrow> (None, remove_image image_path bucket w)
      | Some f \<Rightarrow>
          (case opened f of
             None \<Rightarrow> (None, w)
           | Some (width, height) \<Rightarrow>
               (case minimum_image_size s of
                  None \<Rightarrow> (None, w)
                | Some m \<Rightarrow>
                    if int width < m \<or> int height < m then
                      (None, handle_small_image image_path bucket (delete_unwanted_images s) w)
                    else
                      (case transposed f of
                         None \<Rightarrow> (None, w)
                       | Some (tw, th) \<Rightarrow>
                           if th = 0 then (None, w)
                           else
                             let actual_bucket = aspect_key w tw th
                             in if actual_bucket \<noteq> bucket then
                                  (None, handle_incorrect_bucket image_path bucket actual_bucket w)
                                else (Some image_path, w)))))"

text \<open>
  \<open>_validate_and_yield_images_from_samples\<close>: \<open>if processed_image_path:\<close> drops
  \<open>None\<close> and the empty string; a kept path is recorded in \<open>seen_images\<close> when training.
\<close>

fun validate_and_yield_images_from_samples ::
  "world \<Rightarrow> sampler \<Rightarrow> image_path list \<Rightarrow> bucket_key
     \<Rightarrow> image_path list \<times> world \<times> sampler" where
  "validate_and_yield_images_from_samples w s [] bucket = ([], w, s)"
| "validate_and_yield_images_from_samples w s (image_path # samples) bucket =
     (let (processed, w1) = process_single_image w s image_path bucket
      in case processed of
           None \<Rightarrow> validate_and_yield_images_from_samples w1 s samples bucket
         | Some p \<Rightarrow>
             if p = [] then validate_and_yield_images_from_samples w1 s samples bucket
             else
               let s1 = (if status_training w1
                         then s\<lparr>seen_images := AList.update p bucket (seen_images s)\<rparr>
                         else s);
                   (to_yield, w2, s2) = validate_and_yield_images_from_samples w1 s1 samples bucket
               in (p # to_yield, w2, s2))"

subsection \<open>Sampling outside training\<close>

definition yield_random_image :: "world \<Rightarrow> sampler \<Rightarrow> image_path result" where
  "yield_random_image w s =
     (case random_choice (buckets s) w of
        None \<Rightarrow> Raise IndexErr w s
      | Some (bucket, w1) \<Rightarrow>
          (case map_of (aspect_ratio_bucket_indices w1) bucket of
             None \<Rightarrow> Raise KeyErr w1 s
           | Some images \<Rightarrow>
               (case random_choice images w1 of
                  None \<Rightarrow> Raise IndexErr w1 s
                | Some (image_path, w2) \<Rightarrow> Ok image_path w2 s)))"

text \<open>\<open>_yield_random_image_if_not_training\<close>: \<open>None\<close> stands for the returned \<open>False\<close>.\<close>

definition yield_random_image_if_not_training :: "world \<Rightarrow> sampler \<Rightarrow> image_path option result" where
  "yield_random_image_if_not_training w s =
     (if \<not> status_training w then
        (case yield_random_image w s of
           Raise e w' s' \<Rightarrow> Raise e w' s'
         | Ok image_path w' s' \<Rightarrow> Ok (Some image_path) w' s')
      else Ok None w s)"

subsection \<open>The generator\<close>

text \<open>
  The generator is run as far as its fuel allows, as for a consumer that keeps
  pulling; between two pulls nothing but the sampler touches the world.
  What the consumer of \<open>__iter__\<close> sees, in order: \<open>Batch xs\<close> is one run of the loop
  \<open>for example in batch_accumulator: yield example\<close>, \<open>Preview p\<close> is one early yield
  outside training.
\<close>

datatype event = Batch "image_path list" | Preview image_path

fun emitted :: "event list \<Rightarrow> image_path list" where
  "emitted [] = []"
| "emitted (Batch xs # evs) = xs @ emitted evs"
| "emitted (Preview p # evs) = p # emitted evs"

text \<open>
  A loop ends normally with its local variables (\<open>Done\<close>), by an exception
  (\<open>Failed\<close>), or is still turning when the fuel is spent (\<open>Running\<close>).
\<close>

datatype 'a step = Done 'a world sampler | Failed exc world sampler | Running world sampler

text \<open>
  The \<open>for\<close> statement iterates the list object that \<open>self.buckets\<close> named when the loop
  began. \<open>move_to_exhausted\<close> removes from the object \<open>self.buckets\<close> names now, while a
  rollover binds \<open>self.buckets\<close> to a new list and leaves the old object as it was. The
  loop therefore carries \<open>None\<close> while it iterates the sampler's own list, and \<open>Some L\<close>
  with the old contents once a rollover happened inside it; a rollover is the only
  assignment to \<open>current_epoch\<close>, which is how \<open>rebound\<close> recognises it.
\<close>

definition rebound :: "bucket_key list option \<Rightarrow> sampler \<Rightarrow> sampler \<Rightarrow> bucket_key list option" where
  "rebound it s_before s_after =
     (case it of
        Some L \<Rightarrow> Some L
      | None \<Rightarrow> if current_epoch s_after \<noteq> current_epoch s_before
                then Some (buckets s_before) else None)"

definition iterated_list :: "bucket_key list option \<Rightarrow> sampler \<Rightarrow> bucket_key list" where
  "iterated_list it s = (case it of None \<Rightarrow> buckets s | Some L \<Rightarrow> L)"

text \<open>
  The inner \<open>while len(available_images) >= self.batch_size\<close> loop (lines 307 to 325).
  Its locals are the accumulator, the available images, the flag
  \<open>all_buckets_exhausted\<close> and the iterated list.
\<close>

fun draw_loop ::
  "nat \<Rightarrow> world \<Rightarrow> sampler \<Rightarrow> bucket_key \<Rightarrow> image_path list \<Rightarrow> image_path list \<Rightarrow> bool
     \<Rightarrow> bucket_key list option
     \<Rightarrow> event list \<times> (image_path list \<times> image_path list \<times> bool \<times> bucket_key list option) step"
where
  "draw_loop 0 w s bucket acc available flag it = ([], Running w s)"
| "draw_loop (Suc n) w s bucket acc available flag it =
     (if batch_size s \<le> int (length available) then
        (case random_sample available (batch_size s) w of
           None \<Rightarrow> ([], Failed ValueErr w s)
         | Some (samples, w1) \<Rightarrow>
             (let (to_yield, w2, s2) = validate_and_yield_images_from_samples w1 s samples bucket;
                  acc' = acc @ to_yield
              in if batch_size s2 \<le> int (length acc') then
                   (case change_bucket w2 s2 of
                      Raise e w3 s3 \<Rightarrow> ([Batch acc'], Failed e w3 s3)
                    | Ok u w3 s3 \<Rightarrow>
                        ([Batch acc'], Done ([], available, False, rebound it s2 s3) w3 s3))
                 else
                   (case get_unseen_images w2 (Some bucket) of
                      Inl e \<Rightarrow> ([], Failed e w2 s2)
                    | Inr available' \<Rightarrow> draw_loop n w2 s2 bucket acc' available' False it)))
      else ([], Done (acc, available, flag, it) w s))"

text \<open>
  The \<open>for idx, bucket in enumerate(self.buckets)\<close> loop (lines 305 to 331), from
  position \<open>idx\<close> on. Its locals are the accumulator and the flag.
\<close>

fun bucket_loop ::
  "nat \<Rightarrow> world \<Rightarrow> sampler \<Rightarrow> nat \<Rightarrow> image_path list \<Rightarrow> bool \<Rightarrow> bucket_key list option
     \<Rightarrow> event list \<times> (image_path list \<times> bool) step"
where
  "bucket_loop 0 w s idx acc flag it = ([], Running w s)"
| "bucket_loop (Suc n) w s idx acc flag it =
     (if length (iterated_list it s) \<le> idx then ([], Done (acc, flag) w s)
      else
        let bucket = iterated_list it s ! idx
        in case get_unseen_images w (Some bucket) of
             Inl e \<Rightarrow> ([], Failed e w s)
           | Inr available \<Rightarrow>
               (case draw_loop n w s bucket acc available flag it of
                  (evs, Failed e w1 s1) \<Rightarrow> (evs, Failed e w1 s1)
                | (evs, Running w1 s1) \<Rightarrow> (evs, Running w1 s1)
                | (evs, Done (acc1, available1, flag1, it1) w1 s1) \<Rightarrow>
                    if int (length available1) < batch_size s1
                       \<and> int idx = int (length (buckets s1)) - 1 then
                      (case log_state w1 s1 of
                         Some e \<Rightarrow> (evs, Failed e w1 s1)
                       | None \<Rightarrow>
                           (case move_to_exhausted w1 s1 of
                              Raise e w2 s2 \<Rightarrow> (evs, Failed e w2 s2)
                            | Ok u w2 s2 \<Rightarrow>
                                (case change_bucket w2 s2 of
                                   Raise e w3 s3 \<Rightarrow> (evs, Failed e w3 s3)
                                 | Ok u' w3 s3 \<Rightarrow>
                                     (let (evs', r) =
                                            bucket_loop n w3 s3 (Suc idx) acc1 flag1 (rebound it1 s2 s3)
                                      in (evs @ evs', r)))))
                    else
                      (let (evs', r) = bucket_loop n w1 s1 (Suc idx) acc1 flag1 it1
                       in (evs @ evs', r))))"

text \<open>
  \<open>__iter__\<close>: the accumulator is created once, before \<open>while True\<close>, and lives across
  the rounds. \<open>if early_yield:\<close> is false for \<open>False\<close> and for the empty string.
\<close>

fun iterate :: "nat \<Rightarrow> world \<Rightarrow> sampler \<Rightarrow> image_path list \<Rightarrow> event list \<times> unit step" where
  "iterate 0 w s acc = ([], Running w s)"
| "iterate (Suc n) w s acc =
     (case yield_random_image_if_not_training w s of
        Raise e w1 s1 \<Rightarrow> ([], Failed e w1 s1)
      | Ok early_yield w1 s1 \<Rightarrow>
          if early_yield \<noteq> None \<and> early_yield \<noteq> Some [] then
            (let (evs, r) = iterate n w1 s1 acc in (Preview (the early_yield) # evs, r))
          else
            (case bucket_loop n w1 s1 0 acc True None of
               (evs, Failed e w2 s2) \<Rightarrow> (evs, Failed e w2 s2)
             | (evs, Running w2 s2) \<Rightarrow> (evs, Running w2 s2)
             | (evs, Done (acc1, all_buckets_exhausted) w2 s2) \<Rightarrow>
                 if all_buckets_exhausted then
                   (case reset_buckets w2 s2 of
                      Raise e w3 s3 \<Rightarrow> (evs, Failed e w3 s3)
                    | Ok u w3 s3 \<Rightarrow>
                        (let (evs', r) = iterate n w3 s3 acc1 in (evs @ evs', r)))
                 else
                   (let (evs', r) = iterate n w2 s2 acc1 in (evs @ evs', r))))"

text \<open>\<open>iter(sampler)\<close>: the generator starts with an empty accumulator.\<close>

definition sampler_iter :: "nat \<Rightarrow> world \<Rightarrow> sampler \<Rightarrow> event list \<times> unit step" where
  "sampler_iter n w s = iterate n w s []"

subsection \<open>Observing outcomes\<close>

fun result_state :: "'a result \<Rightarrow> sampler" where
  "result_state (Ok x w s) = s"
| "result_state (Raise e w s) = s"

fun result_world :: "'a result \<Rightarrow> world" where
  "result_world (Ok x w s) = w"
| "result_world (Raise e w s) = w"

fun is_ok :: "'a result \<Rightarrow> bool" where
  "is_ok (Ok x w s) = True"
| "is_ok (Raise e w s) = False"


fun step_state :: "'a step \<Rightarrow> sampler" where
  "step_state (Done x w s) = s"
| "step_state (Failed e w s) = s"
| "step_state (Running w s) = s"

fun step_world :: "'a step \<Rightarrow> world" where
  "step_world (Done x w s) = w"
| "step_world (Failed e w s) = w"
| "step_world (Running w s) = w"






subsection \<open>The checks of validation\<close>







subsection \<open>The early yield, seen from outside\<close>

fun result_value :: "'a result \<Rightarrow> 'a option" where
  "result_value (Ok x w s) = Some x"
| "result_value (Raise e w s) = None"

text \<open>
  The path of an early yield: the bucket at a random position of the active list, then
  the image at a random position of that bucket's list.
\<close>

definition preview_pick :: "world \<Rightarrow> sampler \<Rightarrow> image_path" where
  "preview_pick w s =
     (let bucket = buckets s ! (rng w 0 mod length (buckets s));
          images = the (map_of (aspect_ratio_bucket_indices w) bucket)
      in images ! (rng w 1 mod length images))"

text \<open>
  The early yields for every pair of numbers below \<open>N\<close> that the random module can
  deliver; when \<open>N\<close> is a multiple of the number of active buckets and of every bucket's
  size, each pair stands for an equally likely pair of positions, so the number of
  times a path occurs in the list is proportional to its probability.
\<close>

definition preview_outcomes :: "nat \<Rightarrow> world \<Rightarrow> sampler \<Rightarrow> image_path option list" where
  "preview_outcomes N w s =
     concat (map (\<lambda>r0. map (\<lambda>r1.
        result_value (yield_random_image (w\<lparr>rng := (\<lambda>n. if n = 0 then r0 else r1)\<rparr>) s))
        [0..<N]) [0..<N])"

subsection \<open>Example states\<close>

text \<open>
  A square image of 100 by 100 pixels and a landscape image of 200 by 100, both readable;
  the ratio key of the examples is "2.0" for a width twice the height and "1.0" otherwise.
\<close>

definition square_file :: image_file where
  "square_file = \<lparr>opened = Some (100, 100), transposed = Some (100, 100)\<rparr>"

definition wide_file :: image_file where
  "wide_file = \<lparr>opened = Some (200, 100), transposed = Some (200, 100)\<rparr>"

definition example_key :: "nat \<Rightarrow> nat \<Rightarrow> bucket_key" where
  "example_key width height = (if width = 2 * height then ''2.0'' else ''1.0'')"

definition example_world ::
  "(bucket_key \<times> image_path list) list \<Rightarrow> (image_path \<Rightarrow> image_file option) \<Rightarrow> bool \<Rightarrow> (nat \<Rightarrow> nat)
     \<Rightarrow> world" where
  "example_world idx files training numbers =
     \<lparr>aspect_ratio_bucket_indices = idx,
      is_seen = (\<lambda>image. False),
      backend = files,
      aspect_key = example_key,
      key_float_ok = (\<lambda>b. b \<noteq> []),
      status_training = training,
      rng = numbers\<rparr>"

definition example_sampler :: "bucket_key list \<Rightarrow> int \<Rightarrow> int option \<Rightarrow> sampler" where
  "example_sampler bs n minsize =
     \<lparr>buckets = bs, exhausted_buckets = [], seen_images = [], current_bucket = Some 0,
      current_epoch = 1, batch_size = n, delete_unwanted_images = False,
      minimum_image_size = minsize\<rparr>"

text \<open>One bucket of two readable square images, and a sampler built with the defaults.\<close>

definition plain_world :: world where
  "plain_world = example_world [(''1.0'', [''a'', ''b''])] (\<lambda>p. Some square_file) True (\<lambda>n. 0)"

definition default_sampler :: sampler where
  "default_sampler = example_sampler [''1.0''] 2 None"

text \<open>
  Two buckets: four square images under "1.0" and two wide images under "2.0", all
  readable; and a saved state in which "1.0" was exhausted during epoch 3.
\<close>

definition two_bucket_files :: "image_path \<Rightarrow> image_file option" where
  "two_bucket_files p =
     (if p \<in> {''a'', ''b'', ''c'', ''d''} then Some square_file
      else if p \<in> {''e'', ''f''} then Some wide_file
      else None)"

definition two_bucket_world :: world where
  "two_bucket_world =
     example_world [(''1.0'', [''a'', ''b'', ''c'', ''d'']), (''2.0'', [''e'', ''f''])]
       two_bucket_files True (\<lambda>n. 0)"

definition exhausted_snapshot :: snapshot where
  "exhausted_snapshot =
     \<lparr>snap_exhausted_buckets = Some [''1.0''], snap_current_epoch = Some 3,
      snap_seen_images = Some [(''a'', ''1.0''), (''b'', ''1.0'')]\<rparr>"





definition no_snapshot :: snapshot where
  "no_snapshot =
     \<lparr>snap_exhausted_buckets = None, snap_current_epoch = None, snap_seen_images = None\<rparr>"




text \<open>Outside training: one image under "1.0", two under "2.0", both buckets active.\<close>

definition uneven_world :: world where
  "uneven_world =
     example_world [(''1.0'', [''a'']), (''2.0'', [''b'', ''c''])] (\<lambda>p. Some square_file)
       False (\<lambda>n. 0)"

definition uneven_sampler :: sampler where
  "uneven_sampler = example_sampler [''1.0'', ''2.0''] 2 (Some 50)"

text \<open>
  A sampler resumed on the two buckets from the saved state above; a dictionary whose
  entry "b" has no file behind it; a bucket whose first file cannot be read, with
  random numbers that draw it first; and a dictionary with a single wide image.
\<close>

definition resumed :: "unit result" where
  "resumed = init_sampler two_bucket_world 2 False (Some 50) [] exhausted_snapshot"

definition stale_world :: world where
  "stale_world =
     example_world [(''1.0'', [''a'', ''b'']), (''2.0'', [''e'', ''f''])]
       (\<lambda>p. if p = ''a'' then Some square_file
            else if p \<in> {''e'', ''f''} then Some wide_file
            else None)
       True (\<lambda>n. 0)"

definition corrupt_world :: world where
  "corrupt_world =
     example_world [(''1.0'', [''c'', ''a'', ''b''])]
       (\<lambda>p. if p = ''c'' then Some \<lparr>opened = None, transposed = None\<rparr> else Some square_file)
       True (\<lambda>n. if n = 3 \<or> n = 4 then 1 else 0)"

definition lopsided_world :: world where
  "lopsided_world =
     example_world [(''1.0'', [''a'', ''b'', ''c'', ''d'']), (''2.0'', [''e''])]
       two_bucket_files True (\<lambda>n. 0)"

definition built :: "world \<Rightarrow> unit result" where
  "built w = init_sampler w 2 False (Some 50) [] no_snapshot"

section \<open>Properties\<close>

subsection \<open>Validation under the default configuration\<close>

lemma validate_without_minimum:
  "minimum_image_size s = None \<Longrightarrow>
     fst (validate_and_yield_images_from_samples w s samples bucket) = []"
  by (induction samples arbitrary: w) (simp_all add: process_single_image_def split: option.splits prod.splits)

text \<open>
  C10. With \<open>minimum_image_size\<close> left at its default \<open>None\<close>, a candidate that exists and
  opens is discarded with the world untouched (the comparison with \<open>None\<close> raises inside
  the \<open>try\<close> block); no candidate at all is returned as valid, so a validated draw is
  always empty.
\<close>

theorem no_valid_candidate_without_minimum_size:
  assumes "minimum_image_size s = None"
  shows "(backend w image_path = Some f \<and> opened f \<noteq> None
            \<longrightarrow> process_single_image w s image_path bucket = (None, w))
         \<and> fst (process_single_image w s image_path bucket) = None
         \<and> fst (validate_and_yield_images_from_samples w s samples bucket) = []"
  using assms validate_without_minimum [of s w samples bucket]
  by (auto simp: process_single_image_def split: option.splits)

theorem no_valid_candidate_without_minimum_size_witness:
  "minimum_image_size default_sampler = None
   \<and> backend plain_world ''a'' = Some square_file \<and> opened square_file \<noteq> None
   \<and> process_single_image plain_world default_sampler ''a'' ''1.0'' = (None, plain_world)
   \<and> fst (process_single_image plain_world default_sampler ''a'' ''1.0'') = None
   \<and> fst (validate_and_yield_images_from_samples plain_world default_sampler [''a'', ''b''] ''1.0'') = []"
proof -
  have h: "minimum_image_size default_sampler = None"
    by (simp add: default_sampler_def example_sampler_def)
  have f: "backend plain_world ''a'' = Some square_file \<and> opened square_file \<noteq> None"
    by (simp add: plain_world_def example_world_def square_file_def)
  from no_valid_candidate_without_minimum_size
         [OF h, where w = plain_world and image_path = "''a''" and f = square_file
            and bucket = "''1.0''" and samples = "[''a'', ''b'']"] f h
  show ?thesis by blast
qed

subsection \<open>Predicates kept by every operation\<close>




















subsection \<open>Epoch rollover\<close>







subsection \<open>Active and exhausted buckets\<close>











subsection \<open>The fatal error of a rollover\<close>











subsection \<open>Lazy validation, check by check\<close>




subsection \<open>The early yield outside training\<close>

lemma yield_random_image_pick:
  assumes "buckets s \<noteq> []"
      and "\<forall>b \<in> set (buckets s). \<exists>images. map_of (aspect_ratio_bucket_indices w) b = Some images
              \<and> images \<noteq> []"
  shows "yield_random_image w s
           = Ok (preview_pick w s) (w\<lparr>rng := (\<lambda>n. rng w (Suc (Suc n)))\<rparr>) s"
proof -
  let ?bucket = "buckets s ! (rng w 0 mod length (buckets s))"
  from assms(1) have "?bucket \<in> set (buckets s)" by (intro nth_mem) simp
  with assms(2) obtain images where
    im: "map_of (aspect_ratio_bucket_indices w) ?bucket = Some images" "images \<noteq> []"
    by blast
  with assms(1) show ?thesis
    by (simp add: yield_random_image_def random_choice_def next_random_def preview_pick_def
                  Let_def)
qed

lemma preview_pick_member:
  assumes "buckets s \<noteq> []"
      and "\<forall>b \<in> set (buckets s). \<exists>images. map_of (aspect_ratio_bucket_indices w) b = Some images
              \<and> images \<noteq> [] \<and> [] \<notin> set images"
  shows "preview_pick w s \<noteq> []"
    and "\<exists>b \<in> set (buckets s). \<exists>images. map_of (aspect_ratio_bucket_indices w) b = Some images
              \<and> preview_pick w s \<in> set images"
proof -
  let ?bucket = "buckets s ! (rng w 0 mod length (buckets s))"
  from assms(1) have b: "?bucket \<in> set (buckets s)" by (intro nth_mem) simp
  with assms(2) obtain images where
    im: "map_of (aspect_ratio_bucket_indices w) ?bucket = Some images" "images \<noteq> []"
        "[] \<notin> set images"
    by blast
  from im(2) have m: "images ! (rng w 1 mod length images) \<in> set images"
    by (intro nth_mem) simp
  with im(3) have "images ! (rng w 1 mod length images) \<noteq> []" by metis
  with im(1) show "preview_pick w s \<noteq> []" by (simp add: preview_pick_def Let_def)
  from im(1) m have "preview_pick w s \<in> set images" by (simp add: preview_pick_def Let_def)
  with b im(1) show "\<exists>b \<in> set (buckets s). \<exists>images.
      map_of (aspect_ratio_bucket_indices w) b = Some images \<and> preview_pick w s \<in> set images"
    by blast
qed

text \<open>
  C9, as the code has it. Outside training, when there is an active bucket and every
  active bucket has images in the dictionary, none of them the empty string, one step of
  the generator yields exactly one path and starts over: the image at a random
  position of the bucket at a random position of the active list. Nothing is
  validated (the dictionary and the backend are as before, only the random module
  has advanced) and no field of the sampler changes.
\<close>

theorem early_yield_outside_training:
  assumes "\<not> status_training w" and "buckets s \<noteq> []"
      and "\<forall>b \<in> set (buckets s). \<exists>images. map_of (aspect_ratio_bucket_indices w) b = Some images
              \<and> images \<noteq> [] \<and> [] \<notin> set images"
  shows "yield_random_image_if_not_training w s
           = Ok (Some (preview_pick w s)) (w\<lparr>rng := (\<lambda>n. rng w (Suc (Suc n)))\<rparr>) s
         \<and> (\<exists>b \<in> set (buckets s). \<exists>images.
               map_of (aspect_ratio_bucket_indices w) b = Some images
               \<and> preview_pick w s \<in> set images)
         \<and> iterate (Suc n) w s acc
             = (Preview (preview_pick w s)
                  # fst (iterate n (w\<lparr>rng := (\<lambda>n. rng w (Suc (Suc n)))\<rparr>) s acc),
                snd (iterate n (w\<lparr>rng := (\<lambda>n. rng w (Suc (Suc n)))\<rparr>) s acc))"
proof -
  from assms(3) have weak: "\<forall>b \<in> set (buckets s). \<exists>images.
      map_of (aspect_ratio_bucket_indices w) b = Some images \<and> images \<noteq> []"
    by blast
  have y: "yield_random_image_if_not_training w s
           = Ok (Some (preview_pick w s)) (w\<lparr>rng := (\<lambda>n. rng w (Suc (Suc n)))\<rparr>) s"
    using assms(1) yield_random_image_pick [OF assms(2) weak]
    by (simp add: yield_random_image_if_not_training_def)
  note m = preview_pick_member [OF assms(2,3)]
  from y m(1) have "iterate (Suc n) w s acc
             = (Preview (preview_pick w s)
                  # fst (iterate n (w\<lparr>rng := (\<lambda>n. rng w (Suc (Suc n)))\<rparr>) s acc),
                snd (iterate n (w\<lparr>rng := (\<lambda>n. rng w (Suc (Suc n)))\<rparr>) s acc))"
    by (simp add: split_def Let_def)
  with y m(2) show ?thesis by blast
qed

theorem early_yield_outside_training_witness:
  "\<not> status_training uneven_world \<and> buckets uneven_sampler \<noteq> []
   \<and> yield_random_image_if_not_training uneven_world uneven_sampler
       = Ok (Some (preview_pick uneven_world uneven_sampler))
           (uneven_world\<lparr>rng := (\<lambda>n. rng uneven_world (Suc (Suc n)))\<rparr>) uneven_sampler
   \<and> preview_pick uneven_world uneven_sampler = ''a''
   \<and> iterate (Suc 0) uneven_world uneven_sampler []
       = (Preview (preview_pick uneven_world uneven_sampler)
            # fst (iterate 0 (uneven_world\<lparr>rng := (\<lambda>n. rng uneven_world (Suc (Suc n)))\<rparr>)
                    uneven_sampler []),
          snd (iterate 0 (uneven_world\<lparr>rng := (\<lambda>n. rng uneven_world (Suc (Suc n)))\<rparr>)
                 uneven_sampler []))"
proof -
  have h1: "\<not> status_training uneven_world \<and> buckets uneven_sampler \<noteq> []"
    by (simp add: uneven_world_def example_world_def uneven_sampler_def example_sampler_def)
  have h2: "\<forall>b \<in> set (buckets uneven_sampler). \<exists>images.
      map_of (aspect_ratio_bucket_indices uneven_world) b = Some images
      \<and> images \<noteq> [] \<and> [] \<notin> set images"
    by (simp add: uneven_world_def example_world_def uneven_sampler_def example_sampler_def)
  have p: "preview_pick uneven_world uneven_sampler = ''a''"
    by code_simp
  from early_yield_outside_training [OF conjunct1 [OF h1] conjunct2 [OF h1] h2, of 0 "[]"] h1 p
  show ?thesis by blast
qed

text \<open>
  With one image under "1.0" and two under "2.0", of the four equally likely pairs of
  positions two yield the image of "1.0" and one yields each image of "2.0": the three
  images are not equally likely.
\<close>

theorem early_yield_not_uniform_over_images:
  "count_list (preview_outcomes 2 uneven_world uneven_sampler) (Some ''a'') = 2
   \<and> count_list (preview_outcomes 2 uneven_world uneven_sampler) (Some ''b'') = 1
   \<and> count_list (preview_outcomes 2 uneven_world uneven_sampler) (Some ''c'') = 1
   \<and> length (preview_outcomes 2 uneven_world uneven_sampler) = 4"
  by code_simp

subsection \<open>Runs of the generator in training mode\<close>

text \<open>
  C1, on a sampler resumed in training mode from a saved state in which "a" and "b"
  were seen and bucket "1.0" was exhausted. \<open>_get_unseen_images\<close> asks the bucket
  manager's \<open>is_seen\<close>, which knows nothing of the loaded \<open>seen_images\<close>, and the
  \<open>for\<close> loop of \<open>__iter__\<close> visits every active bucket, exhausted or not: the first
  batch is "a", "b", drawn from "1.0", and the epoch is still the loaded one.
\<close>

theorem resumed_sampler_emits_seen_images:
  "is_ok resumed
   \<and> seen_images (result_state resumed) = [(''a'', ''1.0''), (''b'', ''1.0'')]
   \<and> exhausted_buckets (result_state resumed) = [''1.0'']
   \<and> map_of (aspect_ratio_bucket_indices (result_world resumed)) ''1.0''
       = Some [''a'', ''b'', ''c'', ''d'']
   \<and> fst (sampler_iter 3 (result_world resumed) (result_state resumed)) = [Batch [''a'', ''b'']]
   \<and> emitted (fst (sampler_iter 3 (result_world resumed) (result_state resumed))) = [''a'', ''b'']
   \<and> current_epoch (step_state (snd (sampler_iter 3 (result_world resumed) (result_state resumed))))
       = current_epoch (result_state resumed)"
  by code_simp

text \<open>
  C2, on two runs in training mode with a batch size of 2. The accumulator is emptied
  only after a yield, so images validated before a draw fell short stay in it. With
  an unreadable file in the bucket, one run of yields is "a", "a", "b": three paths.
  With a dictionary entry whose file is missing, "a" of bucket "1.0" waits in the
  accumulator while "1.0" runs short, and is yielded in one run with "e" and "f" of
  bucket "2.0", as \<open>seen_images\<close> records.
\<close>

theorem batch_longer_than_batch_size_and_across_buckets:
  "is_ok (built corrupt_world) \<and> batch_size (result_state (built corrupt_world)) = 2
   \<and> fst (sampler_iter 4 (result_world (built corrupt_world)) (result_state (built corrupt_world)))
       = [Batch [''a'', ''a'', ''b'']]
   \<and> is_ok (built stale_world) \<and> batch_size (result_state (built stale_world)) = 2
   \<and> fst (sampler_iter 4 (result_world (built stale_world)) (result_state (built stale_world)))
       = [Batch [''a'', ''e'', ''f'']]
   \<and> seen_images (step_state (snd
         (sampler_iter 4 (result_world (built stale_world)) (result_state (built stale_world)))))
       = [(''a'', ''1.0''), (''e'', ''2.0''), (''f'', ''2.0'')]"
  by code_simp

text \<open>
  C3, on one pass of the \<open>for\<close> loop in training mode with a batch size of 2, four
  images under "1.0" and one under "2.0". The test for exhaustion is made only at the
  last position of the list, and \<open>move_to_exhausted\<close> moves the bucket at
  \<open>current_bucket\<close>, not the bucket that was tested: "2.0", with one unseen image, was
  tested and stays active, while "1.0", with four unseen images, is moved to
  \<open>exhausted_buckets\<close>.
\<close>

theorem exhaustion_moves_another_bucket:
  "is_ok (built lopsided_world)
   \<and> current_bucket (result_state (built lopsided_world)) = Some 0
   \<and> fst (bucket_loop 3 (result_world (built lopsided_world)) (result_state (built lopsided_world))
             0 [] True None) = [Batch [''a'', ''b'']]
   \<and> exhausted_buckets (step_state (snd
         (bucket_loop 3 (result_world (built lopsided_world)) (result_state (built lopsided_world))
            0 [] True None))) = [''1.0'']
   \<and> buckets (step_state (snd
         (bucket_loop 3 (result_world (built lopsided_world)) (result_state (built lopsided_world))
            0 [] True None))) = [''2.0'']
   \<and> get_unseen_images (step_world (snd
         (bucket_loop 3 (result_world (built lopsided_world)) (result_state (built lopsided_world))
            0 [] True None))) (Some ''1.0'') = Inr [''a'', ''b'', ''c'', ''d'']
   \<and> get_unseen_images (step_world (snd
         (bucket_loop 3 (result_world (built lopsided_world)) (result_state (built lopsided_world))
            0 [] True None))) (Some ''2.0'') = Inr [''e'']"
  by code_simp

text \<open>
  C5, on the resumed sampler. The unseen images of "1.0" used for drawing are all four
  images of the bucket, although "a" and "b" are keys of \<open>seen_images\<close>, and the draw of
  \<open>batch_size\<close> images from them is "a", "b".
\<close>

theorem unseen_images_ignore_seen_images:
  "map fst (seen_images (result_state resumed)) = [''a'', ''b'']
   \<and> get_unseen_images (result_world resumed) (Some ''1.0'') = Inr [''a'', ''b'', ''c'', ''d'']
   \<and> map_option fst
         (random_sample [''a'', ''b'', ''c'', ''d''] (batch_size (result_state resumed))
            (result_world resumed)) = Some [''a'', ''b'']"
  by code_simp

end
